theory Spec2Isabelle
  imports Main "HOL-Library.Word"
begin

section \<open>JavaScript strings and the built-ins the titler calls\<close>

text \<open>
  A JavaScript string is a sequence of UTF-16 code units; \<open>length\<close>, \<open>slice\<close> and
  \<open>trim\<close> all count and inspect code units. A string is therefore a list of 16-bit
  words. \<open>js\<close> turns an ASCII literal of the source into that representation.
\<close>

type_synonym jschar = "16 word"
type_synonym jsstring = "jschar list"

definition js :: "string \<Rightarrow> jsstring" where
  "js s = map (\<lambda>c. of_nat (of_char c)) s"

definition newline :: jschar where
  "newline = 0x0A"

text \<open>
  \<open>String.prototype.trim\<close> removes WhiteSpace and LineTerminator code units from both
  ends (ECMA-262, 22.1.3.32): TAB, LF, VT, FF, CR, SP, NBSP, U+1680, U+2000..U+200A,
  U+2028, U+2029, U+202F, U+205F, U+3000 and U+FEFF.
\<close>

definition isWhiteSpace :: "jschar \<Rightarrow> bool" where
  "isWhiteSpace c \<longleftrightarrow>
     c = 0x09 \<or> c = 0x0A \<or> c = 0x0B \<or> c = 0x0C \<or> c = 0x0D \<or> c = 0x20 \<or> c = 0xA0 \<or>
     c = 0x1680 \<or> (0x2000 \<le> c \<and> c \<le> 0x200A) \<or> c = 0x2028 \<or> c = 0x2029 \<or>
     c = 0x202F \<or> c = 0x205F \<or> c = 0x3000 \<or> c = 0xFEFF"

definition js_trim :: "jsstring \<Rightarrow> jsstring" where
  "js_trim s = rev (dropWhile isWhiteSpace (rev (dropWhile isWhiteSpace s)))"

text \<open>
  \<open>slice(start)\<close> and \<open>slice(start, end)\<close> of arrays and strings (ECMA-262, 23.1.3.28):
  a negative index counts from the end and is clamped at 0, a non-negative one is clamped
  at the length; \<open>-0\<close> is 0. The second argument is \<open>None\<close> when the call omits it.
\<close>

definition slice_index :: "nat \<Rightarrow> int \<Rightarrow> nat" where
  "slice_index len i = (if i < 0 then nat (max (int len + i) 0) else min (nat i) len)"

definition js_slice :: "int \<Rightarrow> int option \<Rightarrow> 'a list \<Rightarrow> 'a list" where
  "js_slice start end xs =
     (let len = length xs;
          k = slice_index len start;
          final = (case end of None \<Rightarrow> len | Some e \<Rightarrow> slice_index len e)
      in take (final - k) (drop k xs))"

text \<open>\<open>Array.prototype.join(sep)\<close>: the elements with \<open>sep\<close> between neighbours.\<close>

fun js_join :: "jsstring \<Rightarrow> jsstring list \<Rightarrow> jsstring" where
  "js_join sep [] = []"
| "js_join sep [x] = x"
| "js_join sep (x # y # ys) = x @ sep @ js_join sep (y # ys)"

text \<open>
  \<open>String.prototype.split(sep)\<close> for a separator of one code unit: the pieces between
  the occurrences of \<open>sep\<close>; the empty string gives one empty piece.
\<close>

fun js_split :: "jschar \<Rightarrow> jsstring \<Rightarrow> jsstring list" where
  "js_split sep [] = [[]]"
| "js_split sep (c # cs) =
     (if c = sep then [] # js_split sep cs
      else (case js_split sep cs of
              [] \<Rightarrow> [[c]]
            | piece # pieces \<Rightarrow> (c # piece) # pieces))"

text \<open>
  Truthiness of an optional string, as \<open>!x\<close> and \<open>x || y\<close> test it: \<open>undefined\<close>,
  \<open>null\<close> and the empty string are falsy.
\<close>

fun truthy :: "jsstring option \<Rightarrow> bool" where
  "truthy None = False"
| "truthy (Some s) = (s \<noteq> [])"

section \<open>Data model\<close>

text \<open>
  \<open>SessionIndexEntry\<close> and \<open>SessionIndex\<close> of \<open>lib.ts\<close>. An optional property is an
  \<open>option\<close>. \<open>messageCount\<close> is a count read from JSON, taken as an integer.
\<close>

record SessionIndexEntry =
  sessionId :: jsstring
  firstPrompt :: jsstring
  projectPath :: jsstring
  created :: jsstring
  modified :: jsstring
  messageCount :: int
  fullPath :: jsstring
  customTitle :: "jsstring option"
  titledAt :: "jsstring option"

record SessionIndex =
  version :: int
  entries :: "SessionIndexEntry list"

text \<open>
  \<open>Message\<close> of the titler: \<open>type\<close> is required, \<open>message\<close>, \<open>role\<close> and
  \<open>content\<close> are optional, and \<open>content\<close> is a string or an array of blocks whose
  \<open>text\<close> is optional.
\<close>

record ContentBlock =
  block_type :: jsstring
  block_text :: "jsstring option"

datatype Content = StringContent jsstring | ArrayContent "ContentBlock list"

record MessageBody =
  role :: "jsstring option"
  content :: "Content option"

record Message =
  msg_type :: jsstring
  message :: "MessageBody option"

section \<open>Excerpt builder\<close>

text \<open>
  \<open>extractConversation\<close> pushes onto \<open>conversation\<close> while it walks the messages. The
  inner loop over the blocks of an assistant message stops at its first \<open>break\<close>.
\<close>

fun scanBlocks :: "ContentBlock list \<Rightarrow> jsstring list \<Rightarrow> jsstring list" where
  "scanBlocks [] conversation = conversation"
| "scanBlocks (block # rest) conversation =
     (if block_type block = js ''text'' \<and> truthy (map_option js_trim (block_text block))
      then conversation @ [js ''Assistant: '' @ js_slice 0 (Some 200) (the (block_text block))]
      else scanBlocks rest conversation)"

definition extractStep :: "Message \<Rightarrow> jsstring list \<Rightarrow> jsstring list" where
  "extractStep msg conversation =
     (if msg_type msg = js ''user'' then
        (case Option.bind (message msg) content of
           Some (StringContent c) \<Rightarrow>
             if js_trim c \<noteq> [] then conversation @ [js ''User: '' @ js_slice 0 (Some 300) c]
             else conversation
         | _ \<Rightarrow> conversation)
      else if msg_type msg = js ''assistant'' then
        (case Option.bind (message msg) content of
           Some (ArrayContent blocks) \<Rightarrow> scanBlocks blocks conversation
         | _ \<Rightarrow> conversation)
      else conversation)"

fun extractLoop :: "Message list \<Rightarrow> jsstring list \<Rightarrow> jsstring list" where
  "extractLoop [] conversation = conversation"
| "extractLoop (msg # msgs) conversation = extractLoop msgs (extractStep msg conversation)"

definition extractConversation :: "Message list \<Rightarrow> jsstring list" where
  "extractConversation messages = extractLoop messages []"

text \<open>\<open>prepareConversationText\<close>; \<open>maxChars\<close> and \<open>numMessages\<close> are numbers, taken as integers.\<close>

definition prepareConversationText :: "jsstring list \<Rightarrow> int \<Rightarrow> int \<Rightarrow> jsstring" where
  "prepareConversationText conversation maxChars numMessages =
     (let recentConversation = js_slice (- numMessages) None conversation;
          combined = js_join [newline] recentConversation
      in if int (length combined) > maxChars
         then js ''...'' @ js_slice (- (maxChars - 3)) None combined
         else combined)"

section \<open>Eligibility policy\<close>

text \<open>
  \<open>new Date(s).getTime()\<close> is the runtime's date parser: milliseconds since the epoch,
  or \<open>NaN\<close> for a string that is no date. It is a parameter \<open>getTime\<close> of the policy,
  with \<open>None\<close> for \<open>NaN\<close>; every comparison with \<open>NaN\<close> is false.
\<close>

definition js_gt :: "int option \<Rightarrow> int option \<Rightarrow> bool" where
  "js_gt a b = (case (a, b) of (Some x, Some y) \<Rightarrow> x > y | _ \<Rightarrow> False)"

definition needsRetitling :: "(jsstring \<Rightarrow> int option) \<Rightarrow> SessionIndexEntry \<Rightarrow> bool" where
  "needsRetitling getTime entry =
     (if \<not> truthy (customTitle entry) then False
      else if \<not> truthy (titledAt entry) then False
      else (let modifiedTime = getTime (modified entry);
                titledTime = getTime (the (titledAt entry))
            in js_gt modifiedTime titledTime))"

definition shouldProcessSession :: "(jsstring \<Rightarrow> int option) \<Rightarrow> SessionIndexEntry \<Rightarrow> bool" where
  "shouldProcessSession getTime entry =
     (if js_trim (firstPrompt entry) = [] \<or> firstPrompt entry = js ''No prompt'' then False
      else if messageCount entry < 3 then False
      else if \<not> truthy (customTitle entry) then True
      else if needsRetitling getTime entry then True
      else False)"

section \<open>The outside world\<close>

text \<open>
  What the titler reads and changes: the files (\<open>readFile\<close>, \<open>writeFile\<close>), the
  directory listings (\<open>readdir\<close>), and the prompts it has POSTed to the model endpoint.
  A path that \<open>files\<close> maps to \<open>None\<close> cannot be read, and \<open>readFile\<close> rejects there.
  Console output is not part of the model.
\<close>

record world =
  files :: "jsstring \<Rightarrow> jsstring option"
  directories :: "jsstring \<Rightarrow> jsstring list option"
  requests :: "jsstring list"

text \<open>
  The model endpoint's JSON answer, \<open>choices[0].message.{content, reasoning_content}\<close>,
  and the outcome of \<open>fetch\<close>: the promise rejects (a transport failure) or resolves to
  a response with \<open>ok\<close>, \<open>status\<close> and a body; \<open>response.json()\<close> rejects on a body
  that is \<open>None\<close>.
\<close>

record ChatMessage =
  chat_content :: "jsstring option"
  reasoning_content :: "jsstring option"

record Choice =
  choice_message :: "ChatMessage option"

record Completion =
  choices :: "Choice list option"

record Response =
  ok :: bool
  status :: nat
  json :: "Completion option"

datatype FetchResult = Rejected | Resolved Response

text \<open>
  The runtime services the titler calls, as parameters: what \<open>JSON.parse\<close> makes of a
  line of a session log and of an index file (\<open>None\<close> when it throws; a line that parses
  is taken to have the shape of \<open>Message\<close>, an index file that of \<open>SessionIndex\<close>, as
  the source's type annotations say), \<open>JSON.stringify(index, null, 2)\<close>,
  the date parser, the endpoint (its answer to the \<open>k\<close>-th request, given the prompt),
  the clock (\<open>new Date().toISOString()\<close> after \<open>k\<close> requests) and \<open>CONFIG.projectsDir\<close>,
  which depends on the home directory.
\<close>

record env =
  parse_message :: "jsstring \<Rightarrow> Message option"
  parse_index :: "jsstring \<Rightarrow> SessionIndex option"
  JSON_stringify :: "SessionIndex \<Rightarrow> jsstring"
  Date_getTime :: "jsstring \<Rightarrow> int option"
  fetch :: "nat \<Rightarrow> jsstring \<Rightarrow> FetchResult"
  Date_toISOString :: "nat \<Rightarrow> jsstring"
  projectsDir :: jsstring

text \<open>
  \<open>JSON.parse\<close> throws a SyntaxError on a text that holds no JSON value at all: the
  empty text, or white space only. On every other text it is the parameter.
\<close>

definition JSON_parse :: "(jsstring \<Rightarrow> 'a option) \<Rightarrow> jsstring \<Rightarrow> 'a option" where
  "JSON_parse parse text = (if js_trim text = [] then None else parse text)"

text \<open>The values a promise of the titler can reject with.\<close>

datatype error = ReadError | SyntaxError | FetchError

definition CONFIG_maxChars :: int where
  "CONFIG_maxChars = 4000"

definition CONFIG_numMessages :: int where
  "CONFIG_numMessages = 10"

section \<open>Title generator\<close>

definition TITLE_PROMPT :: "jsstring \<Rightarrow> jsstring" where
  "TITLE_PROMPT conversation =
     js ''Generate a concise 3-6 word title summarizing this conversation:'' @
     [newline, newline] @ conversation @ [newline, newline] @
     js ''Reply with ONLY the title, no quotes or explanation. /no_think''"

text \<open>\<open>a || b\<close> on optional strings.\<close>

definition js_or :: "jsstring option \<Rightarrow> jsstring option \<Rightarrow> jsstring option" where
  "js_or a b = (if truthy a then a else b)"

text \<open>
  The body of the \<open>try\<close> block of \<open>generateTitle\<close>, from the outcome of \<open>fetch\<close> on:
  \<open>Inl\<close> is an exception thrown inside the block.
\<close>

definition generateTitle_try :: "FetchResult \<Rightarrow> error + jsstring option" where
  "generateTitle_try outcome =
     (case outcome of
        Rejected \<Rightarrow> Inl FetchError
      | Resolved response \<Rightarrow>
          if \<not> ok response then Inr None
          else (case json response of
                  None \<Rightarrow> Inl SyntaxError
                | Some data \<Rightarrow>
                    let msg = (case choices data of
                                 None \<Rightarrow> None
                               | Some [] \<Rightarrow> None
                               | Some (choice # _) \<Rightarrow> choice_message choice);
                        answer = js_or (map_option js_trim (Option.bind msg chat_content))
                                       (map_option js_trim (Option.bind msg reasoning_content))
                    in Inr (js_or answer None)))"

definition generateTitle :: "env \<Rightarrow> jsstring \<Rightarrow> world \<Rightarrow> (error + jsstring option) \<times> world" where
  "generateTitle e conversation w =
     (let prompt = TITLE_PROMPT conversation;
          w' = w\<lparr>requests := requests w @ [prompt]\<rparr>
      in case generateTitle_try (fetch e (length (requests w)) prompt) of
           Inl err \<Rightarrow> (Inr None, w')
         | Inr t \<Rightarrow> (Inr t, w'))"

section \<open>Reading a session log\<close>

definition unknownMessage :: Message where
  "unknownMessage = \<lparr>msg_type = js ''unknown'', message = None\<rparr>"

definition parseLine :: "env \<Rightarrow> jsstring \<Rightarrow> Message" where
  "parseLine e line =
     (case JSON_parse (parse_message e) line of Some m \<Rightarrow> m | None \<Rightarrow> unknownMessage)"

definition loadSessionMessages :: "env \<Rightarrow> world \<Rightarrow> jsstring \<Rightarrow> error + Message list" where
  "loadSessionMessages e w sessionPath =
     (case files w sessionPath of
        None \<Rightarrow> Inr []
      | Some text \<Rightarrow> Inr (map (parseLine e) (js_split newline (js_trim text))))"

section \<open>Index updater and run orchestrator\<close>

definition indexPathOf :: "env \<Rightarrow> jsstring \<Rightarrow> jsstring" where
  "indexPathOf e project = projectsDir e @ js ''/'' @ project @ js ''/sessions-index.json''"

fun probeProjects :: "env \<Rightarrow> world \<Rightarrow> jsstring list \<Rightarrow> jsstring list \<Rightarrow> jsstring list" where
  "probeProjects e w [] indexFiles = indexFiles"
| "probeProjects e w (project # projects) indexFiles =
     (case files w (indexPathOf e project) of
        Some _ \<Rightarrow> probeProjects e w projects (indexFiles @ [indexPathOf e project])
      | None \<Rightarrow> probeProjects e w projects indexFiles)"

definition findSessionsIndex :: "env \<Rightarrow> world \<Rightarrow> error + jsstring list" where
  "findSessionsIndex e w =
     (case directories w (projectsDir e) of
        None \<Rightarrow> Inr []
      | Some projects \<Rightarrow> Inr (probeProjects e w projects []))"

record TitleResult =
  title :: jsstring
  result_titledAt :: jsstring
  updated :: bool

definition processSession ::
  "env \<Rightarrow> SessionIndexEntry \<Rightarrow> bool \<Rightarrow> world \<Rightarrow> (error + TitleResult option) \<times> world" where
  "processSession e entry dryRun w =
     (if \<not> shouldProcessSession (Date_getTime e) entry then (Inr None, w)
      else (case loadSessionMessages e w (fullPath entry) of
              Inl err \<Rightarrow> (Inl err, w)
            | Inr messages \<Rightarrow>
                let conversation = extractConversation messages in
                if length conversation = 0 then (Inr None, w)
                else
                  let combined = prepareConversationText conversation CONFIG_maxChars CONFIG_numMessages in
                  if dryRun then (Inr None, w)
                  else (case generateTitle e combined w of
                          (Inl err, w') \<Rightarrow> (Inl err, w')
                        | (Inr t, w') \<Rightarrow>
                            if \<not> truthy t then (Inr None, w')
                            else (Inr (Some \<lparr>title = the t,
                                             result_titledAt = Date_toISOString e (length (requests w')),
                                             updated = True\<rparr>), w'))))"

text \<open>
  The entries of the parsed index are distinct objects, and \<open>toProcess\<close> holds references
  to some of them: a reference is the entry's position in \<open>index.entries\<close>, and the
  assignment to \<open>entry.customTitle\<close> and \<open>entry.titledAt\<close> is an update at that position.
\<close>

definition assignTitle :: "SessionIndexEntry \<Rightarrow> TitleResult \<Rightarrow> SessionIndexEntry" where
  "assignTitle entry r = entry\<lparr>customTitle := Some (title r), titledAt := Some (result_titledAt r)\<rparr>"

fun processLoop ::
  "env \<Rightarrow> bool \<Rightarrow> nat list \<Rightarrow> SessionIndexEntry list \<Rightarrow> nat \<Rightarrow> world
     \<Rightarrow> (error + SessionIndexEntry list \<times> nat) \<times> world" where
  "processLoop e dryRun [] es updatedCount w = (Inr (es, updatedCount), w)"
| "processLoop e dryRun (i # rest) es updatedCount w =
     (case processSession e (es ! i) dryRun w of
        (Inl err, w') \<Rightarrow> (Inl err, w')
      | (Inr None, w') \<Rightarrow> processLoop e dryRun rest es updatedCount w'
      | (Inr (Some r), w') \<Rightarrow>
          if updated r
          then processLoop e dryRun rest (es[i := assignTitle (es ! i) r]) (updatedCount + 1) w'
          else processLoop e dryRun rest es updatedCount w')"

definition toProcess :: "env \<Rightarrow> SessionIndexEntry list \<Rightarrow> nat list" where
  "toProcess e es = filter (\<lambda>i. shouldProcessSession (Date_getTime e) (es ! i)) [0..<length es]"

definition processIndexFile ::
  "env \<Rightarrow> jsstring \<Rightarrow> bool \<Rightarrow> world \<Rightarrow> (error + nat) \<times> world" where
  "processIndexFile e indexPath dryRun w =
     (case files w indexPath of
        None \<Rightarrow> (Inl ReadError, w)
      | Some text \<Rightarrow>
          (case JSON_parse (parse_index e) text of
             None \<Rightarrow> (Inl SyntaxError, w)
           | Some index \<Rightarrow>
               (case processLoop e dryRun (toProcess e (entries index)) (entries index) 0 w of
                  (Inl err, w') \<Rightarrow> (Inl err, w')
                | (Inr (es, updatedCount), w') \<Rightarrow>
                    if updatedCount > 0 \<and> \<not> dryRun
                    then (Inr updatedCount,
                          w'\<lparr>files := (files w')(indexPath \<mapsto> JSON_stringify e (index\<lparr>entries := es\<rparr>))\<rparr>)
                    else (Inr updatedCount, w'))))"

text \<open>
  \<open>runOnce\<close> returns nothing; the model returns \<open>totalUpdated\<close>, the number it prints
  last, so that a completed run can be told from one that rejected.
\<close>

fun runLoop :: "env \<Rightarrow> bool \<Rightarrow> jsstring list \<Rightarrow> nat \<Rightarrow> world \<Rightarrow> (error + nat) \<times> world" where
  "runLoop e dryRun [] totalUpdated w = (Inr totalUpdated, w)"
| "runLoop e dryRun (indexPath # rest) totalUpdated w =
     (case processIndexFile e indexPath dryRun w of
        (Inl err, w') \<Rightarrow> (Inl err, w')
      | (Inr n, w') \<Rightarrow> runLoop e dryRun rest (totalUpdated + n) w')"

definition runOnce :: "env \<Rightarrow> bool \<Rightarrow> world \<Rightarrow> (error + nat) \<times> world" where
  "runOnce e dryRun w =
     (case findSessionsIndex e w of
        Inl err \<Rightarrow> (Inl err, w)
      | Inr indexFiles \<Rightarrow> runLoop e dryRun indexFiles 0 w)"

section \<open>The specification's own words\<close>

text \<open>
  The excerpt as the specification describes it, message by message: a user message with
  string content that is not empty after trimming gives \<open>"User: "\<close> and the first 300
  characters; an assistant message with array content gives \<open>"Assistant: "\<close> and the
  first 200 characters of the first block of type \<open>text\<close> whose text is not empty after
  trimming; every other message gives nothing.
\<close>

definition qualifyingBlock :: "ContentBlock \<Rightarrow> bool" where
  "qualifyingBlock b =
     (block_type b = js ''text'' \<and> (case block_text b of None \<Rightarrow> False | Some t \<Rightarrow> js_trim t \<noteq> []))"

definition spec_lines :: "Message \<Rightarrow> jsstring list" where
  "spec_lines m =
     (if msg_type m = js ''user'' then
        (case message m of
           None \<Rightarrow> []
         | Some body \<Rightarrow>
             (case content body of
                Some (StringContent c) \<Rightarrow> if js_trim c = [] then [] else [js ''User: '' @ take 300 c]
              | _ \<Rightarrow> []))
      else if msg_type m = js ''assistant'' then
        (case message m of
           None \<Rightarrow> []
         | Some body \<Rightarrow>
             (case content body of
                Some (ArrayContent blocks) \<Rightarrow>
                  (case find qualifyingBlock blocks of
                     None \<Rightarrow> []
                   | Some b \<Rightarrow> (case block_text b of
                                  None \<Rightarrow> []
                                | Some t \<Rightarrow> [js ''Assistant: '' @ take 200 t]))
              | _ \<Rightarrow> []))
      else [])"

text \<open>The last \<open>k\<close> entries of a list, and the untruncated join of the specification.\<close>

definition lastEntries :: "nat \<Rightarrow> 'a list \<Rightarrow> 'a list" where
  "lastEntries k xs = drop (length xs - k) xs"

definition spec_joined :: "jsstring list \<Rightarrow> int \<Rightarrow> jsstring" where
  "spec_joined c numMessages =
     js_join [newline] (lastEntries (nat (min numMessages (int (length c)))) c)"

text \<open>
  The answer of the endpoint as the specification describes it: the first choice's
  message, its content trimmed, or its reasoning field trimmed when the content is empty
  or absent, and nothing when both are.
\<close>

definition firstChoiceMessage :: "Completion \<Rightarrow> ChatMessage option" where
  "firstChoiceMessage data =
     (case choices data of
        None \<Rightarrow> None
      | Some cs \<Rightarrow> (if cs = [] then None else choice_message (hd cs)))"

definition trimmedField :: "(ChatMessage \<Rightarrow> jsstring option) \<Rightarrow> ChatMessage option \<Rightarrow> jsstring" where
  "trimmedField field m =
     (case m of
        None \<Rightarrow> []
      | Some msg \<Rightarrow> (case field msg of None \<Rightarrow> [] | Some s \<Rightarrow> js_trim s))"

definition spec_answer :: "Completion \<Rightarrow> jsstring option" where
  "spec_answer data =
     (let m = firstChoiceMessage data;
          c = trimmedField chat_content m;
          r = trimmedField reasoning_content m
      in if c \<noteq> [] then Some c else if r \<noteq> [] then Some r else None)"

text \<open>
  The positions of the index whose entry a live run of the loop of \<open>processIndexFile\<close>
  assigns a title to: the candidates for which \<open>processSession\<close>, called in its turn,
  returns a result. \<open>es\<close> are the entries as parsed.
\<close>

fun updatedPositions :: "env \<Rightarrow> nat list \<Rightarrow> SessionIndexEntry list \<Rightarrow> world \<Rightarrow> nat list" where
  "updatedPositions e [] es w = []"
| "updatedPositions e (i # rest) es w =
     (case processSession e (es ! i) False w of
        (Inr (Some r), w') \<Rightarrow> (if updated r then [i] else []) @ updatedPositions e rest es w'
      | (_, w') \<Rightarrow> updatedPositions e rest es w')"

text \<open>The excerpt \<open>processSession\<close> builds for an entry, and the text it sends.\<close>

definition excerptOf :: "env \<Rightarrow> world \<Rightarrow> SessionIndexEntry \<Rightarrow> jsstring list" where
  "excerptOf e w entry =
     (case loadSessionMessages e w (fullPath entry) of
        Inl err \<Rightarrow> []
      | Inr messages \<Rightarrow> extractConversation messages)"

definition combinedOf :: "env \<Rightarrow> world \<Rightarrow> SessionIndexEntry \<Rightarrow> jsstring" where
  "combinedOf e w entry =
     prepareConversationText (excerptOf e w entry) CONFIG_maxChars CONFIG_numMessages"

section \<open>Sample inputs\<close>

text \<open>The entry of the test suite, its timestamps, and the values \<open>Date\<close> gives them.\<close>

definition sampleTime :: "jsstring \<Rightarrow> int option" where
  "sampleTime s =
     (if s = js ''2026-01-01T12:00:00Z'' then Some 1767268800000
      else if s = js ''2026-01-01T14:00:00Z'' then Some 1767276000000
      else if s = js ''2026-01-01T16:00:00Z'' then Some 1767283200000
      else None)"

definition baseEntry :: SessionIndexEntry where
  "baseEntry =
     \<lparr>sessionId = js ''test-123'', firstPrompt = js ''Hello world'',
      projectPath = js ''/home/user'', created = js ''2026-01-01T10:00:00Z'',
      modified = js ''2026-01-01T12:00:00Z'', messageCount = 10,
      fullPath = js ''/s.jsonl'', customTitle = None, titledAt = None\<rparr>"

text \<open>An entry titled at 14:00 and modified at 16:00, and one whose title is the empty string.\<close>

definition staleEntry :: SessionIndexEntry where
  "staleEntry =
     baseEntry\<lparr>modified := js ''2026-01-01T16:00:00Z'', customTitle := Some (js ''Old Title''),
               titledAt := Some (js ''2026-01-01T14:00:00Z'')\<rparr>"

definition emptyTitleEntry :: SessionIndexEntry where
  "emptyTitleEntry = staleEntry\<lparr>customTitle := Some []\<rparr>"

definition legacyEntry :: SessionIndexEntry where
  "legacyEntry = baseEntry\<lparr>sessionId := js ''legacy-1'', customTitle := Some (js ''Old Title'')\<rparr>"

definition emptyLegacyEntry :: SessionIndexEntry where
  "emptyLegacyEntry = baseEntry\<lparr>customTitle := Some []\<rparr>"

text \<open>Messages of the test suite.\<close>

definition userMessage :: "jsstring \<Rightarrow> Message" where
  "userMessage c = \<lparr>msg_type = js ''user'', message = Some \<lparr>role = None, content = Some (StringContent c)\<rparr>\<rparr>"

definition assistantMessage :: "ContentBlock list \<Rightarrow> Message" where
  "assistantMessage blocks =
     \<lparr>msg_type = js ''assistant'', message = Some \<lparr>role = None, content = Some (ArrayContent blocks)\<rparr>\<rparr>"

definition sampleMessages :: "Message list" where
  "sampleMessages =
     [\<lparr>msg_type = js ''summary'', message = Some \<lparr>role = None, content = Some (StringContent (js ''Previous context''))\<rparr>\<rparr>,
      \<lparr>msg_type = js ''file-history-snapshot'', message = None\<rparr>,
      userMessage (js ''How do I run a container?''),
      assistantMessage [\<lparr>block_type = js ''tool_use'', block_text = Some (js ''bash'')\<rparr>,
                        \<lparr>block_type = js ''text'', block_text = Some (js ''Use docker run'')\<rparr>,
                        \<lparr>block_type = js ''text'', block_text = Some (js ''Second block'')\<rparr>],
      userMessage (js ''   ''),
      userMessage (js ''Thanks!'')]"

text \<open>
  A world with two projects under \<open>/p\<close>. The index of project \<open>a\<close> is cut off after its
  first brace; the index of project \<open>b\<close> holds \<open>legacyEntry\<close> and \<open>baseEntry\<close>, whose log
  has one user line. \<open>/empty.jsonl\<close> is a file of zero bytes. The endpoint
  answers every request with the title \<open>Docker Help\<close>, in white space.
\<close>

definition indexTextB :: jsstring where
  \<open>indexTextB =
     js ''{"version":1,"entries":['' @
     js ''{"sessionId":"legacy-1","firstPrompt":"Hello world","projectPath":"/home/user",'' @
     js ''"created":"2026-01-01T10:00:00Z","modified":"2026-01-01T12:00:00Z",'' @
     js ''"messageCount":10,"fullPath":"/s.jsonl","customTitle":"Old Title"},'' @
     js ''{"sessionId":"test-123","firstPrompt":"Hello world","projectPath":"/home/user",'' @
     js ''"created":"2026-01-01T10:00:00Z","modified":"2026-01-01T12:00:00Z",'' @
     js ''"messageCount":10,"fullPath":"/s.jsonl"}]}''\<close>

definition logLine :: jsstring where
  \<open>logLine = js ''{"type":"user","message":{"content":"Hello world"}}''\<close>

definition sampleIndex :: SessionIndex where
  "sampleIndex = \<lparr>version = 1, entries = [legacyEntry, baseEntry]\<rparr>"

definition sampleCompletion :: Completion where
  "sampleCompletion =
     \<lparr>choices = Some [\<lparr>choice_message =
        Some \<lparr>chat_content = Some (js '' Docker Help ''), reasoning_content = None\<rparr>\<rparr>]\<rparr>"

definition reasoningCompletion :: Completion where
  "reasoningCompletion =
     \<lparr>choices = Some [\<lparr>choice_message =
        Some \<lparr>chat_content = Some (js ''  ''), reasoning_content = Some (js ''Docker Help '')\<rparr>\<rparr>]\<rparr>"

definition respondWith :: "Completion \<Rightarrow> nat \<Rightarrow> jsstring \<Rightarrow> FetchResult" where
  "respondWith data k prompt = Resolved \<lparr>ok = True, status = 200, json = Some data\<rparr>"

definition serverError :: "nat \<Rightarrow> jsstring \<Rightarrow> FetchResult" where
  "serverError k prompt = Resolved \<lparr>ok = False, status = 500, json = None\<rparr>"

definition unreachable :: "nat \<Rightarrow> jsstring \<Rightarrow> FetchResult" where
  "unreachable k prompt = Rejected"

definition sampleStringify :: "SessionIndex \<Rightarrow> jsstring" where
  "sampleStringify index =
     concat (map (\<lambda>x. sessionId x @ js ''='' @ (case customTitle x of None \<Rightarrow> [] | Some t \<Rightarrow> t) @ js '';'')
                 (entries index))"

definition sampleEnv :: env where
  "sampleEnv =
     \<lparr>parse_message = (\<lambda>line. if line = logLine then Some (userMessage (js ''Hello world'')) else None),
      parse_index = (\<lambda>text. if text = indexTextB then Some sampleIndex else None),
      JSON_stringify = sampleStringify,
      Date_getTime = sampleTime,
      fetch = respondWith sampleCompletion,
      Date_toISOString = (\<lambda>k. js ''2026-01-02T00:00:00.000Z''),
      projectsDir = js ''/p''\<rparr>"

definition indexPathA :: jsstring where
  "indexPathA = js ''/p/a/sessions-index.json''"

definition indexPathB :: jsstring where
  "indexPathB = js ''/p/b/sessions-index.json''"

definition sampleWorld :: world where
  "sampleWorld =
     \<lparr>files = [indexPathA \<mapsto> js ''{'',
               indexPathB \<mapsto> indexTextB,
               js ''/s.jsonl'' \<mapsto> logLine,
               js ''/empty.jsonl'' \<mapsto> []],
      directories = [js ''/p'' \<mapsto> [js ''a'', js ''b'']],
      requests = []\<rparr>"

section \<open>Facts about the built-ins\<close>

lemma js_slice_prefix: "0 \<le> n \<Longrightarrow> js_slice 0 (Some n) xs = take (nat n) xs"
  by (simp add: js_slice_def slice_index_def Let_def min_def)

lemma js_slice_suffix:
  "1 \<le> n \<Longrightarrow> js_slice (- n) None xs = lastEntries (nat (min n (int (length xs)))) xs"
  by (auto simp add: js_slice_def slice_index_def Let_def lastEntries_def min_def max_def
      nat_diff_distrib')

lemma dropWhile_all_iff: "(\<forall>x\<in>set (dropWhile P xs). P x) \<longleftrightarrow> (\<forall>x\<in>set xs. P x)"
proof
  assume all: "\<forall>x\<in>set (dropWhile P xs). P x"
  have "dropWhile P xs = []"
  proof (rule ccontr)
    assume ne: "dropWhile P xs \<noteq> []"
    then have "\<not> P (hd (dropWhile P xs))" by (rule hd_dropWhile)
    moreover from ne have "hd (dropWhile P xs) \<in> set (dropWhile P xs)" by simp
    ultimately show False using all by blast
  qed
  then show "\<forall>x\<in>set xs. P x" by (simp add: dropWhile_eq_Nil_conv)
next
  assume "\<forall>x\<in>set xs. P x"
  then show "\<forall>x\<in>set (dropWhile P xs). P x" by (blast dest: set_dropWhileD)
qed

lemma js_trim_empty_iff: "js_trim s = [] \<longleftrightarrow> (\<forall>c\<in>set s. isWhiteSpace c)"
  by (simp add: js_trim_def dropWhile_eq_Nil_conv dropWhile_all_iff)

section \<open>The excerpt of a message list\<close>

lemma scanBlocks_spec:
  "scanBlocks blocks acc =
     acc @ (case find qualifyingBlock blocks of
              None \<Rightarrow> []
            | Some b \<Rightarrow> (case block_text b of None \<Rightarrow> [] | Some t \<Rightarrow> [js ''Assistant: '' @ take 200 t]))"
  by (induction blocks) (auto simp add: qualifyingBlock_def js_slice_prefix split: option.splits)

lemma extractStep_spec: "extractStep m acc = acc @ spec_lines m"
  by (auto simp add: extractStep_def spec_lines_def scanBlocks_spec js_slice_prefix
      split: option.splits Content.splits)

lemma extractLoop_spec: "extractLoop ms acc = acc @ concat (map spec_lines ms)"
  by (induction ms arbitrary: acc) (simp_all add: extractStep_spec)

lemma spec_lines_length: "length (spec_lines m) \<le> 1"
  by (simp add: spec_lines_def split: option.splits Content.splits)

text \<open>
  C5. \<open>extractConversation\<close> emits, in the order of the messages, the lines the
  specification gives each message (\<open>spec_lines\<close>): one \<open>User:\<close> line with the first 300
  characters for a user message whose string content is not empty after trimming, at most
  one \<open>Assistant:\<close> line with the first 200 characters of the first qualifying text block
  for an assistant message with array content, and no line for any other message.
\<close>

theorem extractConversation_spec_lines:
  "extractConversation messages = concat (map spec_lines messages) \<and>
   (\<forall>m \<in> set messages. length (spec_lines m) \<le> 1)"
  using spec_lines_length by (simp add: extractConversation_def extractLoop_spec)

theorem extractConversation_spec_lines_witness:
  "extractConversation sampleMessages =
     [js ''User: How do I run a container?'', js ''Assistant: Use docker run'', js ''User: Thanks!''] \<and>
   userMessage (js ''Thanks!'') \<in> set sampleMessages \<and>
   length (spec_lines (userMessage (js ''Thanks!''))) \<le> 1"
  using extractConversation_spec_lines [of sampleMessages]
  by (simp add: sampleMessages_def userMessage_def assistantMessage_def spec_lines_def
      qualifyingBlock_def js_def js_trim_def isWhiteSpace_def)

section \<open>The bounded prompt text\<close>

text \<open>
  C2, amended. For \<open>numMessages \<ge> 1\<close>, \<open>prepareConversationText\<close> is the join by newline
  of the last \<open>min(numMessages, len(c))\<close> entries when that join is no longer than
  \<open>maxChars\<close>; when it is longer and \<open>maxChars \<ge> 4\<close>, the result has length exactly
  \<open>maxChars\<close>, starts with three dots, and goes on with the last \<open>maxChars - 3\<close>
  characters of the join.
\<close>

theorem prepareConversationText_condition:
  assumes "1 \<le> numMessages"
  shows "(int (length (spec_joined c numMessages)) \<le> maxChars \<longrightarrow>
            prepareConversationText c maxChars numMessages = spec_joined c numMessages) \<and>
         (maxChars < int (length (spec_joined c numMessages)) \<and> 4 \<le> maxChars \<longrightarrow>
            length (prepareConversationText c maxChars numMessages) = nat maxChars \<and>
            take 3 (prepareConversationText c maxChars numMessages) = js ''...'' \<and>
            drop 3 (prepareConversationText c maxChars numMessages) =
              lastEntries (nat (maxChars - 3)) (spec_joined c numMessages))"
proof -
  have recent: "js_join [newline] (js_slice (- numMessages) None c) = spec_joined c numMessages"
    using assms by (simp add: js_slice_suffix spec_joined_def)
  have dots: "length (js ''...'') = 3" by (simp add: js_def)
  show ?thesis
  proof (intro conjI impI)
    assume "int (length (spec_joined c numMessages)) \<le> maxChars"
    then show "prepareConversationText c maxChars numMessages = spec_joined c numMessages"
      by (simp add: prepareConversationText_def recent Let_def)
  next
    assume over: "maxChars < int (length (spec_joined c numMessages)) \<and> 4 \<le> maxChars"
    then have tail: "js_slice (- (maxChars - 3)) None (spec_joined c numMessages) =
        lastEntries (nat (maxChars - 3)) (spec_joined c numMessages)"
      using js_slice_suffix [of "maxChars - 3" "spec_joined c numMessages"] by (simp add: min_def)
    have result: "prepareConversationText c maxChars numMessages =
        js ''...'' @ lastEntries (nat (maxChars - 3)) (spec_joined c numMessages)"
      unfolding prepareConversationText_def Let_def recent tail using over by simp
    show "length (prepareConversationText c maxChars numMessages) = nat maxChars"
      using over by (simp add: result dots lastEntries_def) linarith
    show "take 3 (prepareConversationText c maxChars numMessages) = js ''...''"
      by (simp add: result dots)
    show "drop 3 (prepareConversationText c maxChars numMessages) =
        lastEntries (nat (maxChars - 3)) (spec_joined c numMessages)"
      by (simp add: result dots)
  qed
qed

theorem prepareConversationText_condition_witness:
  "(1::int) \<le> 3 \<and>
   prepareConversationText [js ''msg1'', js ''msg2'', js ''msg3'', js ''msg4'', js ''msg5''] 1000 3 =
     js ''msg3'' @ [newline] @ js ''msg4'' @ [newline] @ js ''msg5'' \<and>
   (1::int) \<le> 10 \<and> (4::int) \<le> 8 \<and>
   length (prepareConversationText [js ''aaaa'', js ''bbbb'', js ''cccc''] 8 10) = 8 \<and>
   take 3 (prepareConversationText [js ''aaaa'', js ''bbbb'', js ''cccc''] 8 10) = js ''...'' \<and>
   drop 3 (prepareConversationText [js ''aaaa'', js ''bbbb'', js ''cccc''] 8 10) = [newline] @ js ''cccc''"
  using prepareConversationText_condition
      [of 3 "[js ''msg1'', js ''msg2'', js ''msg3'', js ''msg4'', js ''msg5'']" 1000]
    prepareConversationText_condition [of 10 "[js ''aaaa'', js ''bbbb'', js ''cccc'']" 8]
  by (simp add: spec_joined_def lastEntries_def js_def newline_def)

text \<open>
  C2 as stated fails outside that range: \<open>slice(-0)\<close> is \<open>slice(0)\<close>, so
  \<open>numMessages = 0\<close> keeps every entry instead of none, and \<open>maxChars = 3\<close> keeps the
  whole join behind the dots.
\<close>

theorem prepareConversationText_counterexample:
  "\<not> (int (length (spec_joined [js ''a'', js ''b''] 0)) \<le> 1000 \<longrightarrow>
        prepareConversationText [js ''a'', js ''b''] 1000 0 = spec_joined [js ''a'', js ''b''] 0) \<and>
   \<not> (3 < int (length (spec_joined [js ''abcdef''] 10)) \<longrightarrow>
        length (prepareConversationText [js ''abcdef''] 3 10) = nat 3)"
  by (simp add: spec_joined_def lastEntries_def prepareConversationText_def js_slice_def
      slice_index_def js_def newline_def)

section \<open>The eligibility policy\<close>

text \<open>
  C4, amended. \<open>needsRetitling\<close> is false whenever \<open>customTitle\<close> or \<open>titledAt\<close> is
  absent or the empty string; when both are non-empty strings it is true if and only if
  the \<open>modified\<close> timestamp is strictly later than the \<open>titledAt\<close> timestamp.
\<close>

theorem needsRetitling_condition:
  "(customTitle x = None \<or> customTitle x = Some [] \<or> titledAt x = None \<or> titledAt x = Some []
      \<longrightarrow> \<not> needsRetitling getTime x) \<and>
   (\<forall>t ts. customTitle x = Some t \<and> t \<noteq> [] \<and> titledAt x = Some ts \<and> ts \<noteq> [] \<longrightarrow>
      (needsRetitling getTime x \<longleftrightarrow> js_gt (getTime (modified x)) (getTime ts)))"
  by (auto simp add: needsRetitling_def)

theorem needsRetitling_condition_witness:
  "customTitle staleEntry = Some (js ''Old Title'') \<and> js ''Old Title'' \<noteq> [] \<and>
   titledAt staleEntry = Some (js ''2026-01-01T14:00:00Z'') \<and> js ''2026-01-01T14:00:00Z'' \<noteq> [] \<and>
   needsRetitling sampleTime staleEntry \<and>
   titledAt legacyEntry = None \<and> \<not> needsRetitling sampleTime legacyEntry"
  using needsRetitling_condition [of staleEntry sampleTime]
    needsRetitling_condition [of legacyEntry sampleTime]
  by (simp add: staleEntry_def legacyEntry_def baseEntry_def sampleTime_def js_gt_def js_def)

text \<open>
  C4 as stated fails for a title that is present but empty: the entry was titled at 14:00
  and modified at 16:00, and \<open>needsRetitling\<close> is false.
\<close>

theorem needsRetitling_counterexample:
  "\<not> (customTitle emptyTitleEntry \<noteq> None \<and> titledAt emptyTitleEntry \<noteq> None \<longrightarrow>
        (needsRetitling sampleTime emptyTitleEntry \<longleftrightarrow>
         js_gt (sampleTime (modified emptyTitleEntry)) (sampleTime (the (titledAt emptyTitleEntry)))))"
  by (simp add: emptyTitleEntry_def staleEntry_def baseEntry_def sampleTime_def js_gt_def js_def
      needsRetitling_def)

text \<open>
  C3, amended. \<open>shouldProcessSession\<close> is false if \<open>firstPrompt\<close> is empty, white space
  only or exactly \<open>No prompt\<close>, false if \<open>messageCount < 3\<close> (3 qualifies, 2 does not),
  and otherwise true if and only if \<open>customTitle\<close> is absent or the empty string, or
  \<open>needsRetitling\<close> is true.
\<close>

theorem shouldProcessSession_condition:
  "((\<forall>c\<in>set (firstPrompt x). isWhiteSpace c) \<or> firstPrompt x = js ''No prompt''
      \<longrightarrow> \<not> shouldProcessSession getTime x) \<and>
   (messageCount x < 3 \<longrightarrow> \<not> shouldProcessSession getTime x) \<and>
   (\<not> (\<forall>c\<in>set (firstPrompt x). isWhiteSpace c) \<and> firstPrompt x \<noteq> js ''No prompt'' \<and>
    3 \<le> messageCount x \<longrightarrow>
      (shouldProcessSession getTime x \<longleftrightarrow>
       customTitle x = None \<or> customTitle x = Some [] \<or> needsRetitling getTime x))"
  unfolding shouldProcessSession_def js_trim_empty_iff
  by (cases "customTitle x") auto

theorem shouldProcessSession_condition_witness:
  "shouldProcessSession sampleTime (baseEntry\<lparr>messageCount := 3\<rparr>) \<and>
   \<not> shouldProcessSession sampleTime (baseEntry\<lparr>messageCount := 2\<rparr>) \<and>
   \<not> shouldProcessSession sampleTime (baseEntry\<lparr>firstPrompt := js ''   ''\<rparr>) \<and>
   \<not> shouldProcessSession sampleTime (baseEntry\<lparr>firstPrompt := js ''No prompt''\<rparr>) \<and>
   shouldProcessSession sampleTime staleEntry"
  using shouldProcessSession_condition [of "baseEntry\<lparr>messageCount := 3\<rparr>" sampleTime]
    shouldProcessSession_condition [of "baseEntry\<lparr>messageCount := 2\<rparr>" sampleTime]
    shouldProcessSession_condition [of "baseEntry\<lparr>firstPrompt := js ''   ''\<rparr>" sampleTime]
    shouldProcessSession_condition [of "baseEntry\<lparr>firstPrompt := js ''No prompt''\<rparr>" sampleTime]
    shouldProcessSession_condition [of staleEntry sampleTime]
  by (simp add: staleEntry_def baseEntry_def sampleTime_def js_gt_def js_def isWhiteSpace_def
      needsRetitling_def)

text \<open>
  C3 as stated fails for a title that is present but empty: the entry passes both gates,
  its title is not absent and it needs no retitling, and \<open>shouldProcessSession\<close> is true.
\<close>

theorem shouldProcessSession_counterexample:
  "\<not> (js_trim (firstPrompt emptyLegacyEntry) \<noteq> [] \<and> firstPrompt emptyLegacyEntry \<noteq> js ''No prompt'' \<and>
        \<not> messageCount emptyLegacyEntry < 3 \<longrightarrow>
        (shouldProcessSession sampleTime emptyLegacyEntry \<longleftrightarrow>
         customTitle emptyLegacyEntry = None \<or> needsRetitling sampleTime emptyLegacyEntry))"
  by (simp add: emptyLegacyEntry_def baseEntry_def js_def js_trim_def isWhiteSpace_def
      shouldProcessSession_def needsRetitling_def)

section \<open>The index updater\<close>

lemma generateTitle_world:
  "\<exists>r. generateTitle e conversation w =
          (Inr r, w\<lparr>requests := requests w @ [TITLE_PROMPT conversation]\<rparr>)"
  by (simp add: generateTitle_def Let_def split: sum.splits)



lemma loadSessionMessages_resolves: "\<exists>ms. loadSessionMessages e w p = Inr ms"
  by (simp add: loadSessionMessages_def split: option.splits)

lemma processSession_dryRun: "processSession e x True w = (Inr None, w)"
  using loadSessionMessages_resolves [of e w "fullPath x"]
  by (auto simp add: processSession_def Let_def)

lemma processSession_result:
  "\<exists>r w'. processSession e x False w = (Inr r, w') \<and>
      files w' = files w \<and> directories w' = directories w \<and>
      (\<forall>res. r = Some res \<longrightarrow>
         updated res \<and> title res \<noteq> [] \<and> shouldProcessSession (Date_getTime e) x \<and>
         excerptOf e w x \<noteq> [] \<and>
         fst (generateTitle e (combinedOf e w x) w) = Inr (Some (title res)))"
proof -
  obtain ms where ms: "loadSessionMessages e w (fullPath x) = Inr ms"
    using loadSessionMessages_resolves by blast
  obtain t where t: "generateTitle e (combinedOf e w x) w =
      (Inr t, w\<lparr>requests := requests w @ [TITLE_PROMPT (combinedOf e w x)]\<rparr>)"
    using generateTitle_world by blast
  have c: "prepareConversationText (extractConversation ms) CONFIG_maxChars CONFIG_numMessages =
      combinedOf e w x"
    by (simp add: combinedOf_def excerptOf_def ms)
  have x: "excerptOf e w x = extractConversation ms"
    by (simp add: excerptOf_def ms)
  show ?thesis
    by (cases t) (auto simp add: processSession_def Let_def ms c t x)
qed

lemma processLoop_dryRun: "processLoop e True is es n w = (Inr (es, n), w)"
  by (induction "is") (simp_all add: processSession_dryRun)

lemma updatedPositions_cong:
  "\<forall>j\<in>set is. es2 ! j = es ! j \<Longrightarrow> updatedPositions e is es2 w = updatedPositions e is es w"
  by (induction "is" arbitrary: w) (auto split: prod.splits sum.splits option.splits)

lemma updatedPositions_step:
  assumes "processSession e (es ! i) False w = (Inr r, w')"
  shows "updatedPositions e (i # rest) es w =
           (case r of
              None \<Rightarrow> updatedPositions e rest es w'
            | Some res \<Rightarrow> (if updated res then [i] else []) @ updatedPositions e rest es w')"
  using assms by (simp split: option.splits)

lemma updatedPositions_subset: "set (updatedPositions e is es w) \<subseteq> set is"
proof (induction "is" arbitrary: w)
  case Nil
  show ?case by simp
next
  case (Cons i rest)
  obtain r w' where step: "processSession e (es ! i) False w = (Inr r, w')"
    using processSession_result by blast
  have "set (updatedPositions e rest es w') \<subseteq> set rest" by (rule Cons.IH)
  then show ?case
    unfolding updatedPositions_step [OF step] by (auto split: option.splits)
qed


lemma processLoop_step:
  assumes "processSession e (es ! i) False w = (Inr r, w')"
  shows "processLoop e False (i # rest) es n w =
           (case r of
              None \<Rightarrow> processLoop e False rest es n w'
            | Some res \<Rightarrow>
                if updated res
                then processLoop e False rest (es[i := assignTitle (es ! i) res]) (n + 1) w'
                else processLoop e False rest es n w')"
  using assms by (simp split: option.splits)

lemma processLoop_live:
  assumes "distinct is" and "\<forall>i\<in>set is. i < length es"
  shows "\<exists>es' w'.
      processLoop e False is es n w = (Inr (es', n + length (updatedPositions e is es w)), w') \<and>
      files w' = files w \<and> directories w' = directories w \<and> length es' = length es \<and>
      (\<forall>j. j \<notin> set (updatedPositions e is es w) \<longrightarrow> es' ! j = es ! j) \<and>
      (\<forall>j\<in>set (updatedPositions e is es w).
         \<exists>w0 w0' res. files w0 = files w \<and>
           processSession e (es ! j) False w0 = (Inr (Some res), w0') \<and>
           es' ! j = assignTitle (es ! j) res)"
  using assms
proof (induction "is" arbitrary: es n w)
  case Nil
  show ?case by simp
next
  case (Cons i rest)
  obtain r w1 where step: "processSession e (es ! i) False w = (Inr r, w1)"
    and fs: "files w1 = files w" and ds: "directories w1 = directories w"
    and res: "\<forall>res. r = Some res \<longrightarrow> updated res"
    using processSession_result [of e "es ! i" w] by blast
  from Cons.prems have dist: "distinct rest" and notin: "i \<notin> set rest"
    and bound: "\<forall>k\<in>set rest. k < length es" and ilen: "i < length es"
    by simp_all
  show ?case
  proof (cases r)
    case None
    from Cons.IH [OF dist bound, of n w1]
    obtain es' w' where
      loop: "processLoop e False rest es n w1 =
               (Inr (es', n + length (updatedPositions e rest es w1)), w')"
      and rest: "files w' = files w1" "directories w' = directories w1" "length es' = length es"
        "\<forall>j. j \<notin> set (updatedPositions e rest es w1) \<longrightarrow> es' ! j = es ! j"
        "\<forall>j\<in>set (updatedPositions e rest es w1).
           \<exists>w0 w0' res. files w0 = files w1 \<and>
             processSession e (es ! j) False w0 = (Inr (Some res), w0') \<and>
             es' ! j = assignTitle (es ! j) res"
      by blast
    have ups: "updatedPositions e (i # rest) es w = updatedPositions e rest es w1"
      by (simp only: updatedPositions_step [OF step] None option.case)
    have lp: "processLoop e False (i # rest) es n w = processLoop e False rest es n w1"
      by (simp only: processLoop_step [OF step] None option.case)
    show ?thesis
      unfolding ups lp using loop rest fs ds by auto
  next
    case (Some result)
    with res have upd: "updated result" by simp
    let ?es2 = "es[i := assignTitle (es ! i) result]"
    have same: "\<forall>j\<in>set rest. ?es2 ! j = es ! j"
    proof
      fix j assume "j \<in> set rest"
      with notin have "i \<noteq> j" by blast
      then show "?es2 ! j = es ! j" by (rule nth_list_update_neq)
    qed
    have ups2: "updatedPositions e rest ?es2 w1 = updatedPositions e rest es w1"
      using same by (rule updatedPositions_cong)
    have bound2: "\<forall>k\<in>set rest. k < length ?es2" using bound by simp
    from Cons.IH [OF dist bound2, of "n + 1" w1]
    obtain es' w' where
      loop: "processLoop e False rest ?es2 (n + 1) w1 =
               (Inr (es', n + 1 + length (updatedPositions e rest es w1)), w')"
      and rest: "files w' = files w1" "directories w' = directories w1" "length es' = length es"
        "\<forall>j. j \<notin> set (updatedPositions e rest es w1) \<longrightarrow> es' ! j = ?es2 ! j"
        "\<forall>j\<in>set (updatedPositions e rest es w1).
           \<exists>w0 w0' res. files w0 = files w1 \<and>
             processSession e (?es2 ! j) False w0 = (Inr (Some res), w0') \<and>
             es' ! j = assignTitle (?es2 ! j) res"
      unfolding ups2 by auto
    have sub: "set (updatedPositions e rest es w1) \<subseteq> set rest"
      by (rule updatedPositions_subset)
    have ups: "updatedPositions e (i # rest) es w = i # updatedPositions e rest es w1"
      by (simp only: updatedPositions_step [OF step] Some option.case upd if_True append_Cons append_Nil)
    have lp: "processLoop e False (i # rest) es n w = processLoop e False rest ?es2 (n + 1) w1"
      by (simp only: processLoop_step [OF step] Some option.case upd if_True)
    have inotin: "i \<notin> set (updatedPositions e rest es w1)" using sub notin by blast
    have ati: "es' ! i = assignTitle (es ! i) result"
      using rest(4) inotin ilen by simp
    have frame: "\<forall>j. j \<notin> set (i # updatedPositions e rest es w1) \<longrightarrow> es' ! j = es ! j"
      using rest(4) by auto
    have upd_i: "\<exists>w0 w0' res. files w0 = files w \<and>
        processSession e (es ! i) False w0 = (Inr (Some res), w0') \<and>
        es' ! i = assignTitle (es ! i) res"
      using step Some ati by blast
    have upd_rest: "\<forall>j\<in>set (updatedPositions e rest es w1).
        \<exists>w0 w0' res. files w0 = files w \<and>
          processSession e (es ! j) False w0 = (Inr (Some res), w0') \<and>
          es' ! j = assignTitle (es ! j) res"
    proof
      fix j assume j: "j \<in> set (updatedPositions e rest es w1)"
      then have "j \<in> set rest" using sub by blast
      then have eq: "?es2 ! j = es ! j" using same by blast
      from rest(5) j obtain w0 w0' res0 where
        "files w0 = files w1" "processSession e (?es2 ! j) False w0 = (Inr (Some res0), w0')"
        "es' ! j = assignTitle (?es2 ! j) res0"
        by blast
      then show "\<exists>w0 w0' res. files w0 = files w \<and>
          processSession e (es ! j) False w0 = (Inr (Some res), w0') \<and>
          es' ! j = assignTitle (es ! j) res"
        unfolding eq fs by blast
    qed
    show ?thesis
      unfolding ups lp using loop rest(1-3) fs ds frame upd_i upd_rest by auto
  qed
qed

lemma toProcess_distinct: "distinct (toProcess e es)"
  by (simp add: toProcess_def)

lemma toProcess_member:
  "i \<in> set (toProcess e es) \<longleftrightarrow> i < length es \<and> shouldProcessSession (Date_getTime e) (es ! i)"
  by (auto simp add: toProcess_def)

lemma processIndexFile_parsed:
  assumes "files w p = Some text" and "JSON_parse (parse_index e) text = Some index"
    and "processLoop e dryRun (toProcess e (entries index)) (entries index) 0 w = (Inr (es, n), w1)"
  shows "processIndexFile e p dryRun w =
           (Inr n, if n > 0 \<and> \<not> dryRun
                   then w1\<lparr>files := (files w1)(p \<mapsto> JSON_stringify e (index\<lparr>entries := es\<rparr>))\<rparr>
                   else w1)"
  using assms by (simp add: processIndexFile_def)

lemma processLoop_any_mode:
  assumes "distinct is" and "\<forall>i\<in>set is. i < length es"
  shows "\<exists>es' n' w'. processLoop e dryRun is es n w = (Inr (es', n'), w') \<and>
      files w' = files w \<and> length es' = length es \<and>
      (\<forall>j. j \<notin> set is \<longrightarrow> es' ! j = es ! j)"
proof (cases dryRun)
  case True
  then show ?thesis by (simp add: processLoop_dryRun)
next
  case False
  have sub: "set (updatedPositions e is es w) \<subseteq> set is" by (rule updatedPositions_subset)
  from processLoop_live [OF assms, of e n w] obtain es' w' where
    loop: "processLoop e False is es n w = (Inr (es', n + length (updatedPositions e is es w)), w')"
    "files w' = files w" "length es' = length es"
    "\<forall>j. j \<notin> set (updatedPositions e is es w) \<longrightarrow> es' ! j = es ! j"
    by blast
  moreover from False have "dryRun = False" by simp
  ultimately show ?thesis using sub by blast
qed

lemma processIndexFile_malformed:
  "files w p = Some body \<Longrightarrow> JSON_parse (parse_index e) body = None \<Longrightarrow>
   processIndexFile e p dryRun w = (Inl SyntaxError, w)"
  by (simp add: processIndexFile_def)

section \<open>Runs in the sample world\<close>

lemma sample_file_A: "files sampleWorld indexPathA = Some (js ''{'')"
  by code_simp

lemma sample_file_B: "files sampleWorld indexPathB = Some indexTextB"
  by code_simp

lemma sample_parse_A: "JSON_parse (parse_index sampleEnv) (js ''{'') = None"
  by code_simp

lemma sample_parse_B: "JSON_parse (parse_index sampleEnv) indexTextB = Some sampleIndex"
  by code_simp

lemma sample_discovery: "findSessionsIndex sampleEnv sampleWorld = Inr [indexPathA, indexPathB]"
  by code_simp

lemma sample_candidates: "toProcess sampleEnv (entries sampleIndex) = [1]"
  by code_simp


lemma sample_live_count: "fst (processIndexFile sampleEnv indexPathB False sampleWorld) = Inr 1"
  by code_simp

section \<open>Claims about the index updater\<close>



text \<open>
  C8. In dry-run mode \<open>processSession\<close> returns no result and leaves the world as it is,
  so that no prompt is POSTed; the loop of \<open>processIndexFile\<close> leaves every entry and the
  count as they are; \<open>processIndexFile\<close> writes nothing, and the count it returns is zero.
\<close>

theorem processIndexFile_dryRun_no_effect:
  "processSession e x True w = (Inr None, w) \<and>
   processLoop e True is es n w = (Inr (es, n), w) \<and>
   snd (processIndexFile e p True w) = w \<and>
   (\<forall>k. fst (processIndexFile e p True w) = Inr k \<longrightarrow> k = 0) \<and>
   (\<forall>text index. files w p = Some text \<and> JSON_parse (parse_index e) text = Some index \<longrightarrow>
      processIndexFile e p True w = (Inr 0, w))"
  by (simp add: processSession_dryRun processLoop_dryRun processIndexFile_def
      split: option.splits)

theorem processIndexFile_dryRun_no_effect_witness:
  "files sampleWorld indexPathB = Some indexTextB \<and>
   JSON_parse (parse_index sampleEnv) indexTextB = Some sampleIndex \<and>
   toProcess sampleEnv (entries sampleIndex) = [1] \<and>
   processIndexFile sampleEnv indexPathB True sampleWorld = (Inr 0, sampleWorld)"
proof -
  note h1 = sample_file_B and h2 = sample_parse_B and h3 = sample_candidates
  show ?thesis
    using h1 h2 h3 processIndexFile_dryRun_no_effect [of sampleEnv _ sampleWorld _ _ _ indexPathB]
    by blast
qed

text \<open>
  C9, amended. An entry whose \<open>customTitle\<close> is a non-empty string and whose \<open>titledAt\<close>
  is absent is not selected by \<open>shouldProcessSession\<close>, and \<open>processIndexFile\<close>, live or
  dry-run, leaves it as it is, in memory and in the index it writes.
\<close>

theorem legacy_entry_untouched:
  assumes "customTitle x = Some t" and "t \<noteq> []" and "titledAt x = None"
  shows "\<not> shouldProcessSession (Date_getTime e) x \<and>
    (\<forall>text index i.
       files w p = Some text \<and> JSON_parse (parse_index e) text = Some index \<and>
       i < length (entries index) \<and> entries index ! i = x \<longrightarrow>
       (\<exists>es n w1.
          processLoop e dryRun (toProcess e (entries index)) (entries index) 0 w = (Inr (es, n), w1) \<and>
          length es = length (entries index) \<and> es ! i = x \<and>
          processIndexFile e p dryRun w =
            (Inr n, if n > 0 \<and> \<not> dryRun
                    then w1\<lparr>files := (files w1)(p \<mapsto> JSON_stringify e (index\<lparr>entries := es\<rparr>))\<rparr>
                    else w1)))"
proof -
  have no: "\<not> shouldProcessSession (Date_getTime e) x"
    using assms by (simp add: shouldProcessSession_def needsRetitling_def)
  have "\<exists>es n w1.
          processLoop e dryRun (toProcess e (entries index)) (entries index) 0 w = (Inr (es, n), w1) \<and>
          length es = length (entries index) \<and> es ! i = x \<and>
          processIndexFile e p dryRun w =
            (Inr n, if n > 0 \<and> \<not> dryRun
                    then w1\<lparr>files := (files w1)(p \<mapsto> JSON_stringify e (index\<lparr>entries := es\<rparr>))\<rparr>
                    else w1)"
    if h: "files w p = Some body" "JSON_parse (parse_index e) body = Some index"
      "i < length (entries index)" "entries index ! i = x"
    for body index i
  proof -
    have bound: "\<forall>i\<in>set (toProcess e (entries index)). i < length (entries index)"
      by (simp add: toProcess_member)
    from processLoop_any_mode [OF toProcess_distinct bound, of e dryRun 0 w]
    obtain es n w1 where
      loop: "processLoop e dryRun (toProcess e (entries index)) (entries index) 0 w = (Inr (es, n), w1)"
      and len: "length es = length (entries index)"
      and frame: "\<forall>j. j \<notin> set (toProcess e (entries index)) \<longrightarrow> es ! j = entries index ! j"
      by blast
    have "i \<notin> set (toProcess e (entries index))"
      using no h(4) by (simp add: toProcess_member)
    with frame h(4) have "es ! i = x" by simp
    with loop len processIndexFile_parsed [OF h(1) h(2) loop] show ?thesis by blast
  qed
  with no show ?thesis by blast
qed

theorem legacy_entry_untouched_witness:
  "customTitle legacyEntry = Some (js ''Old Title'') \<and> js ''Old Title'' \<noteq> [] \<and>
   titledAt legacyEntry = None \<and>
   \<not> shouldProcessSession (Date_getTime sampleEnv) legacyEntry \<and>
   files sampleWorld indexPathB = Some indexTextB \<and>
   JSON_parse (parse_index sampleEnv) indexTextB = Some sampleIndex \<and>
   (0::nat) < length (entries sampleIndex) \<and> entries sampleIndex ! 0 = legacyEntry \<and>
   (\<exists>es w1. fst (processIndexFile sampleEnv indexPathB False sampleWorld) = Inr 1 \<and>
      snd (processIndexFile sampleEnv indexPathB False sampleWorld) =
        w1\<lparr>files := (files w1)(indexPathB \<mapsto> JSON_stringify sampleEnv (sampleIndex\<lparr>entries := es\<rparr>))\<rparr> \<and>
      es ! 0 = legacyEntry)"
proof -
  have a1: "customTitle legacyEntry = Some (js ''Old Title'')" by code_simp
  have a2: "js ''Old Title'' \<noteq> []" by code_simp
  have a3: "titledAt legacyEntry = None" by code_simp
  note h1 = sample_file_B and h2 = sample_parse_B
  have h3: "(0::nat) < length (entries sampleIndex)" by code_simp
  have h4: "entries sampleIndex ! 0 = legacyEntry" by code_simp
  note count = sample_live_count
  from legacy_entry_untouched [OF a1 a2 a3, of sampleEnv sampleWorld indexPathB False]
  have no: "\<not> shouldProcessSession (Date_getTime sampleEnv) legacyEntry"
    and run: "\<exists>es n w1.
        processLoop sampleEnv False (toProcess sampleEnv (entries sampleIndex)) (entries sampleIndex) 0 sampleWorld =
          (Inr (es, n), w1) \<and>
        length es = length (entries sampleIndex) \<and> es ! 0 = legacyEntry \<and>
        processIndexFile sampleEnv indexPathB False sampleWorld =
          (Inr n, if n > 0 \<and> \<not> False
                  then w1\<lparr>files := (files w1)(indexPathB \<mapsto> JSON_stringify sampleEnv (sampleIndex\<lparr>entries := es\<rparr>))\<rparr>
                  else w1)"
    using h1 h2 h3 h4 by blast+
  from run count obtain es w1 where
    "snd (processIndexFile sampleEnv indexPathB False sampleWorld) =
        w1\<lparr>files := (files w1)(indexPathB \<mapsto> JSON_stringify sampleEnv (sampleIndex\<lparr>entries := es\<rparr>))\<rparr>"
    "es ! 0 = legacyEntry"
    by auto
  with a1 a2 a3 h1 h2 h3 h4 no count show ?thesis by blast
qed

text \<open>
  C9 as stated fails for a title that is present but empty: the entry has a \<open>customTitle\<close>
  and no \<open>titledAt\<close>, and \<open>shouldProcessSession\<close> selects it.
\<close>

theorem legacy_entry_counterexample:
  "\<not> (customTitle emptyLegacyEntry \<noteq> None \<and> titledAt emptyLegacyEntry = None \<longrightarrow>
        \<not> shouldProcessSession sampleTime emptyLegacyEntry)"
  by (simp add: emptyLegacyEntry_def baseEntry_def js_def js_trim_def isWhiteSpace_def
      shouldProcessSession_def needsRetitling_def)

section \<open>The title generator\<close>

lemma js_or_trimmed:
  "js_or (js_or (map_option js_trim (Option.bind m chat_content))
                (map_option js_trim (Option.bind m reasoning_content))) None =
   (let c = trimmedField chat_content m; r = trimmedField reasoning_content m
    in if c \<noteq> [] then Some c else if r \<noteq> [] then Some r else None)"
  by (cases m) (auto simp add: js_or_def trimmedField_def Let_def split: option.splits)

lemma generateTitle_try_ok:
  "ok response \<Longrightarrow> json response = Some data \<Longrightarrow>
   generateTitle_try (Resolved response) = Inr (spec_answer data)"
proof -
  assume a: "ok response" "json response = Some data"
  have m: "(case choices data of None \<Rightarrow> None | Some [] \<Rightarrow> None
            | Some (choice # x) \<Rightarrow> choice_message choice) = firstChoiceMessage data"
    by (simp add: firstChoiceMessage_def split: option.splits list.splits)
  show ?thesis
    using a by (simp add: generateTitle_try_def m Let_def spec_answer_def js_or_trimmed)
qed

text \<open>
  C6. \<open>generateTitle\<close> always resolves, never rejects: with \<open>null\<close> when \<open>fetch\<close>
  rejects (a transport failure) and when the response is not \<open>ok\<close>; on an \<open>ok\<close> response
  with the first choice's content trimmed, or that being empty or absent with its
  reasoning field trimmed, and with \<open>null\<close> when both are empty or absent (or the body is
  no JSON). Every call POSTs exactly one prompt.
\<close>

theorem generateTitle_outcome:
  "\<exists>r. generateTitle e conversation w =
          (Inr r, w\<lparr>requests := requests w @ [TITLE_PROMPT conversation]\<rparr>) \<and>
        (case fetch e (length (requests w)) (TITLE_PROMPT conversation) of
           Rejected \<Rightarrow> r = None
         | Resolved response \<Rightarrow>
             (\<not> ok response \<longrightarrow> r = None) \<and>
             (ok response \<longrightarrow> r = (case json response of None \<Rightarrow> None | Some data \<Rightarrow> spec_answer data)))"
proof (cases "fetch e (length (requests w)) (TITLE_PROMPT conversation)")
  case Rejected
  then show ?thesis by (simp add: generateTitle_def generateTitle_try_def Let_def)
next
  case (Resolved response)
  show ?thesis
  proof (cases "ok response")
    case False
    with Resolved show ?thesis by (simp add: generateTitle_def generateTitle_try_def Let_def)
  next
    case True
    show ?thesis
    proof (cases "json response")
      case None
      with True Resolved show ?thesis
        by (simp add: generateTitle_def generateTitle_try_def Let_def)
    next
      case (Some data)
      with True Resolved show ?thesis
        by (simp add: generateTitle_def generateTitle_try_ok Let_def)
    qed
  qed
qed

theorem generateTitle_outcome_witness:
  "fst (generateTitle sampleEnv (js ''User: hi'') sampleWorld) = Inr (Some (js ''Docker Help'')) \<and>
   fst (generateTitle (sampleEnv\<lparr>fetch := respondWith reasoningCompletion\<rparr>) (js ''User: hi'') sampleWorld) =
     Inr (Some (js ''Docker Help'')) \<and>
   fst (generateTitle (sampleEnv\<lparr>fetch := serverError\<rparr>) (js ''User: hi'') sampleWorld) = Inr None \<and>
   fst (generateTitle (sampleEnv\<lparr>fetch := unreachable\<rparr>) (js ''User: hi'') sampleWorld) = Inr None"
proof -
  have a: "spec_answer sampleCompletion = Some (js ''Docker Help'')" by code_simp
  have b: "spec_answer reasoningCompletion = Some (js ''Docker Help'')" by code_simp
  show ?thesis
    using generateTitle_outcome [of sampleEnv "js ''User: hi''" sampleWorld]
      generateTitle_outcome [of "sampleEnv\<lparr>fetch := respondWith reasoningCompletion\<rparr>" "js ''User: hi''" sampleWorld]
      generateTitle_outcome [of "sampleEnv\<lparr>fetch := serverError\<rparr>" "js ''User: hi''" sampleWorld]
      generateTitle_outcome [of "sampleEnv\<lparr>fetch := unreachable\<rparr>" "js ''User: hi''" sampleWorld]
    by (auto simp add: a b sampleEnv_def respondWith_def serverError_def unreachable_def)
qed

section \<open>Reading an empty log\<close>

text \<open>
  C10. On a file that exists and holds zero bytes \<open>loadSessionMessages\<close> returns a list of
  one record, of type \<open>unknown\<close>; on a file that is missing it returns the empty list.
\<close>

theorem loadSessionMessages_empty_file:
  "(files w sessionPath = Some [] \<longrightarrow> loadSessionMessages e w sessionPath = Inr [unknownMessage]) \<and>
   (files w sessionPath = None \<longrightarrow> loadSessionMessages e w sessionPath = Inr []) \<and>
   msg_type unknownMessage = js ''unknown'' \<and>
   length [unknownMessage] = 1"
  by (simp add: loadSessionMessages_def parseLine_def JSON_parse_def js_trim_def unknownMessage_def)

theorem loadSessionMessages_empty_file_witness:
  "files sampleWorld (js ''/empty.jsonl'') = Some [] \<and>
   loadSessionMessages sampleEnv sampleWorld (js ''/empty.jsonl'') = Inr [unknownMessage] \<and>
   files sampleWorld (js ''/missing.jsonl'') = None \<and>
   loadSessionMessages sampleEnv sampleWorld (js ''/missing.jsonl'') = Inr []"
proof -
  have a: "files sampleWorld (js ''/empty.jsonl'') = Some []" by code_simp
  have b: "files sampleWorld (js ''/missing.jsonl'') = None" by code_simp
  show ?thesis
    using a b loadSessionMessages_empty_file [of sampleWorld "js ''/empty.jsonl''" sampleEnv]
      loadSessionMessages_empty_file [of sampleWorld "js ''/missing.jsonl''" sampleEnv]
    by blast
qed

section \<open>The run orchestrator\<close>

lemma runLoop_rejects:
  "processIndexFile e p dryRun w = (Inl err, w') \<Longrightarrow>
   runLoop e dryRun (p # rest) k w = (Inl err, w')"
  by simp

text \<open>
  C1. \<open>runOnce\<close> has no handler around \<open>processIndexFile\<close>. In the sample world both
  index files are discovered and the first is malformed: the run rejects with the
  SyntaxError of that file and the world is as it was, so the second file, in which one
  entry would have been titled, is never processed.
\<close>

theorem runOnce_rejects_at_malformed_index:
  "findSessionsIndex sampleEnv sampleWorld = Inr [indexPathA, indexPathB] \<and>
   files sampleWorld indexPathA = Some (js ''{'') \<and>
   runOnce sampleEnv False sampleWorld = (Inl SyntaxError, sampleWorld) \<and>
   fst (processIndexFile sampleEnv indexPathB False sampleWorld) = Inr 1"
proof -
  have "processIndexFile sampleEnv indexPathA False sampleWorld = (Inl SyntaxError, sampleWorld)"
    using sample_file_A sample_parse_A by (rule processIndexFile_malformed)
  then have "runLoop sampleEnv False [indexPathA, indexPathB] 0 sampleWorld =
      (Inl SyntaxError, sampleWorld)"
    by (rule runLoop_rejects)
  then have "runOnce sampleEnv False sampleWorld = (Inl SyntaxError, sampleWorld)"
    by (simp add: runOnce_def sample_discovery)
  then show ?thesis
    using sample_discovery sample_file_A sample_live_count by blast
qed

end
